theory Spec2Isabelle
  imports Complex_Main "HOL-Library.Word"
begin

section \<open>GrTextureAdjuster: data model\<close>

text \<open>
  The development embeds \<^verbatim>\<open>src/gpu/GrTextureAdjuster.cpp\<close>. Texture proxies are
  shared by pointer, so they live in a heap (a list; a pointer is an index) and the functions
  pass the mutable state of the context around explicitly. \<^verbatim>\<open>SkASSERT\<close> is a check in a
  debug build and nothing in a release build; every function takes the build flag and returns
  \<open>Inl SkAssertFailed\<close> where a debug build would abort.
\<close>

datatype Filter = kNearest | kBilerp | kMipMap

datatype GrMipMapped = kNo | kYes

datatype GrSurfaceOrigin = kTopLeft_GrSurfaceOrigin | kBottomLeft_GrSurfaceOrigin

datatype DomainMode = kNoDomain_DomainMode | kDomain_DomainMode | kTightCopy_DomainMode

datatype FilterConstraint = kYes_FilterConstraint | kNo_FilterConstraint

datatype error = SkAssertFailed

type_synonym SkScalar = real

type_synonym ptr = nat

record SkRect =
  fLeft :: SkScalar
  fTop :: SkScalar
  fRight :: SkScalar
  fBottom :: SkScalar

record GrTextureProxy =
  width :: int
  height :: int
  mipMapped :: GrMipMapped
  origin :: GrSurfaceOrigin

text \<open>
  \<^verbatim>\<open>CopyParams\<close> is declared in a header that is not among the sources; its fields are
  the ones the data model of the specification lists (target width, target height, mip
  requirement). The adjuster only passes it on.
\<close>

record CopyParams =
  cpWidth :: int
  cpHeight :: int
  cpMips :: bool

record GrSamplerState =
  isRepeated :: bool
  filterMode :: Filter

text \<open>
  A \<^verbatim>\<open>GrUniqueKey\<close> is either the invalid (default constructed) key or a built key,
  which carries the data it was built from.
\<close>

datatype GrUniqueKey = InvalidKey | Key "32 word" int int CopyParams

fun isValid :: "GrUniqueKey \<Rightarrow> bool" where
  "isValid InvalidKey = False"
| "isValid (Key _ _ _ _) = True"

text \<open>
  The calls made to the external collaborators (resource cache, copy engine, requirement
  analyzer, domain solver, fragment processor assembly) are recorded in a log, oldest first,
  so that "no GPU work", "exactly one copy" and "detached before attached" are statements
  about the log.
\<close>

datatype call =
    FindByKey GrUniqueKey
  | GpuCopy ptr CopyParams bool
  | RemoveKey GrUniqueKey ptr
  | AssignKey GrUniqueKey ptr
  | DidCacheCopy GrUniqueKey
  | AnalyzeWrap
  | AnalyzeMips
  | SolveDomain "Filter option"
  | Assemble ptr

text \<open>
  The immutable part of a \<^verbatim>\<open>GrContext\<close>: the device capabilities and the external
  decision procedures, none of which is among the sources. They are parameters of the model.
  \<open>IsACopyNeededForRepeatWrapMode\<close> answers \<open>None\<close> for \<^verbatim>\<open>false\<close> and otherwise
  gives the values it writes to its out-parameters \<^verbatim>\<open>copyParams\<close> and
  \<^verbatim>\<open>scaleAdjust\<close>; \<open>IsACopyNeededForMips\<close> likewise for \<^verbatim>\<open>copyParams\<close>.
  \<open>gpuCanCopy\<close> says whether the copy engine succeeds on a request.
\<close>

record GrContext =
  maxTextureSize :: int
  mipMapSupport :: bool
  IsACopyNeededForRepeatWrapMode ::
    "GrTextureProxy \<Rightarrow> int \<Rightarrow> int \<Rightarrow> Filter \<Rightarrow> (CopyParams \<times> SkScalar \<times> SkScalar) option"
  IsACopyNeededForMips :: "GrTextureProxy \<Rightarrow> Filter \<Rightarrow> CopyParams option"
  gpuCanCopy :: "GrTextureProxy \<Rightarrow> CopyParams \<Rightarrow> bool \<Rightarrow> bool"

text \<open>
  The mutable state: the proxies, the key table of the proxy provider (a relation between
  keys and proxies, kept as a list of pairs: nothing in its type forbids two entries under
  one key), its DDL flag and context id, and the log. A pointer held by an adjuster or by the
  key table is meant to be an index of the heap; reading through a dangling pointer is
  undefined in the source, and the theorems that depend on such a read state that the
  pointer is in range.
\<close>

record World =
  heap :: "GrTextureProxy list"
  fUniquelyKeyedProxies :: "(GrUniqueKey \<times> ptr) list"
  recordingDDL :: bool
  contextUniqueID :: "32 word"
  calls :: "call list"

text \<open>
  The adjuster: \<open>fContext\<close> is \<open>None\<close> once the context was abandoned (a null
  pointer); \<open>fWidth\<close> and \<open>fHeight\<close> are the size of the original, as the constructor
  passes it to the base class.
\<close>

record GrTextureAdjuster =
  fContext :: "GrContext option"
  fOriginal :: ptr
  fAlphaType :: nat
  fColorSpace :: nat
  fUniqueID :: "32 word"
  fWidth :: int
  fHeight :: int

definition SkASSERT :: "bool \<Rightarrow> bool \<Rightarrow> error + 'a \<Rightarrow> error + 'a" where
  "SkASSERT dbg c k = (if dbg \<and> \<not> c then Inl SkAssertFailed else k)"

definition logCall :: "call \<Rightarrow> World \<Rightarrow> World" where
  "logCall c w = w\<lparr>calls := calls w @ [c]\<rparr>"

section \<open>Key builder and the collaborators of the gateway\<close>

text \<open>
  Modelled from the spec: \<^verbatim>\<open>GrMakeKeyFromImageID\<close> and
  \<^verbatim>\<open>MakeCopyKeyFromOrigKey\<close>, which \<^verbatim>\<open>makeCopyKey\<close> calls, are missing from the
  sources. The key is built deterministically from the content identity, the full rectangle
  of the texture and the copy parameters, and is the invalid key only if the content identity
  is zero.
\<close>

definition makeCopyKey :: "GrTextureAdjuster \<Rightarrow> CopyParams \<Rightarrow> GrUniqueKey" where
  "makeCopyKey a params =
     (if fUniqueID a = 0 then InvalidKey else Key (fUniqueID a) (fWidth a) (fHeight a) params)"

text \<open>
  Modelled from the spec: the resource cache (\<^verbatim>\<open>GrProxyProvider\<close>) is missing from the
  sources. \<open>findOrCreateProxyByUniqueKey\<close> answers the entry registered under the key, if
  any; \<open>removeUniqueKeyFromProxy\<close> detaches the key from that proxy;
  \<open>assignUniqueKeyToProxy\<close> attaches it.
\<close>

fun lookupKey :: "(GrUniqueKey \<times> ptr) list \<Rightarrow> GrUniqueKey \<Rightarrow> ptr option" where
  "lookupKey [] k = None"
| "lookupKey ((k', p) # es) k = (if k' = k then Some p else lookupKey es k)"

text \<open>
  Modelled from the spec: \<^verbatim>\<open>findOrCreateByKey(key)\<close> of the resource cache, missing
  from the sources: the entry registered under the key, or null.
\<close>

definition findOrCreateProxyByUniqueKey :: "GrUniqueKey \<Rightarrow> World \<Rightarrow> ptr option \<times> World" where
  "findOrCreateProxyByUniqueKey key w =
     (lookupKey (fUniquelyKeyedProxies w) key, logCall (FindByKey key) w)"

text \<open>
  Modelled from the spec: \<^verbatim>\<open>removeKey(key, handle)\<close> of the resource cache, missing
  from the sources: the key is detached from that proxy.
\<close>

definition removeUniqueKeyFromProxy :: "GrUniqueKey \<Rightarrow> ptr \<Rightarrow> World \<Rightarrow> World" where
  "removeUniqueKeyFromProxy key p w =
     logCall (RemoveKey key p)
       (w\<lparr>fUniquelyKeyedProxies := filter (\<lambda>e. e \<noteq> (key, p)) (fUniquelyKeyedProxies w)\<rparr>)"

text \<open>
  Modelled from the spec: \<^verbatim>\<open>assignKey(key, handle)\<close> of the resource cache, missing
  from the sources: the proxy is registered under the key.
\<close>

definition assignUniqueKeyToProxy :: "GrUniqueKey \<Rightarrow> ptr \<Rightarrow> World \<Rightarrow> World" where
  "assignUniqueKeyToProxy key p w =
     logCall (AssignKey key p)
       (w\<lparr>fUniquelyKeyedProxies := fUniquelyKeyedProxies w @ [(key, p)]\<rparr>)"

text \<open>
  Modelled from the spec: the copy engine \<^verbatim>\<open>CopyOnGpu\<close> is missing from the sources.
  It either fails (null) or produces a new proxy with the required capability: the target
  size of the copy parameters, mip levels exactly when they are required, the orientation of
  its source. The new proxy is a fresh object of the heap.
\<close>

definition CopyOnGpu ::
  "GrContext \<Rightarrow> ptr \<Rightarrow> CopyParams \<Rightarrow> bool \<Rightarrow> World \<Rightarrow> ptr option \<times> World" where
  "CopyOnGpu ctx src copyParams dstWillRequireMipMaps w =
     (let w1 = logCall (GpuCopy src copyParams dstWillRequireMipMaps) w in
      if src < length (heap w) \<and> gpuCanCopy ctx (heap w ! src) copyParams dstWillRequireMipMaps
      then (Some (length (heap w)),
            w1\<lparr>heap := heap w @
               [\<lparr>width = cpWidth copyParams, height = cpHeight copyParams,
                 mipMapped = (if dstWillRequireMipMaps then kYes else kNo),
                 origin = origin (heap w ! src)\<rparr>]\<rparr>)
      else (None, w1))"

text \<open>\<^verbatim>\<open>didCacheCopy\<close>: the body is empty ("no mechanism for notifications on Images").\<close>

definition didCacheCopy :: "GrUniqueKey \<Rightarrow> 32 word \<Rightarrow> World \<Rightarrow> World" where
  "didCacheCopy copyKey contextID w = logCall (DidCacheCopy copyKey) w"

section \<open>Copy cache gateway: refTextureProxyCopy\<close>

text \<open>
  The context pointer was checked by the caller, so the function receives the context itself.
  The result is the returned proxy pointer (\<open>None\<close> for null) with the new state.
\<close>

definition refTextureProxyCopy ::
  "bool \<Rightarrow> GrContext \<Rightarrow> GrTextureAdjuster \<Rightarrow> CopyParams \<Rightarrow> bool \<Rightarrow> World
     \<Rightarrow> error + (ptr option \<times> World)" where
  "refTextureProxyCopy dbg ctx a copyParams willBeMipped w =
     (let key = makeCopyKey a copyParams;
          (cachedCopy, w1) =
             (if isValid key then findOrCreateProxyByUniqueKey key w else (None, w))
      in if isValid key \<and> cachedCopy \<noteq> None \<and>
            (\<not> willBeMipped \<or> mipMapped (heap w1 ! the cachedCopy) = kYes)
         then Inr (cachedCopy, w1)
         else
           (let proxy = fOriginal a;
                (copy, w2) = CopyOnGpu ctx proxy copyParams willBeMipped w1
            in case copy of
                 None \<Rightarrow> Inr (None, w2)
               | Some c \<Rightarrow>
                   if isValid key then
                     SkASSERT dbg (origin (heap w2 ! c) = origin (heap w2 ! fOriginal a))
                       (case cachedCopy of
                          None \<Rightarrow>
                            (let w4 = assignUniqueKeyToProxy key c w2
                             in Inr (Some c,
                                     if \<not> recordingDDL w4
                                     then didCacheCopy key (contextUniqueID w4) w4 else w4))
                        | Some old \<Rightarrow>
                            SkASSERT dbg
                              (mipMapped (heap w2 ! c) = kYes \<and> mipMapped (heap w2 ! old) = kNo)
                              (let w3 = removeUniqueKeyFromProxy key old w2;
                                   w4 = assignUniqueKeyToProxy key c w3
                               in Inr (Some c,
                                       if \<not> recordingDDL w4
                                       then didCacheCopy key (contextUniqueID w4) w4 else w4)))
                   else Inr (Some c, w2)))"

section \<open>Adjustment facade: onRefTextureProxyForParams\<close>

text \<open>
  The out-parameters are returned: \<open>rColorSpace\<close> is what was written through
  \<^verbatim>\<open>texColorSpace\<close> (\<open>None\<close>: nothing written), \<open>rScale\<close> the content of
  \<^verbatim>\<open>scaleAdjust\<close> on return. \<open>hasTexColorSpace\<close> says whether the caller passed a
  non-null \<^verbatim>\<open>texColorSpace\<close>. The local \<^verbatim>\<open>copyParams\<close> is only read after one
  of the two analyzer calls has answered \<^verbatim>\<open>true\<close> and so has written it.
\<close>

record RefResult =
  rProxy :: "ptr option"
  rColorSpace :: "nat option"
  rScale :: "SkScalar \<times> SkScalar"
  rWorld :: World

definition onRefTextureProxyForParams ::
  "bool \<Rightarrow> GrTextureAdjuster \<Rightarrow> GrSamplerState \<Rightarrow> bool \<Rightarrow> bool \<Rightarrow> SkScalar \<times> SkScalar
     \<Rightarrow> World \<Rightarrow> error + RefResult" where
  "onRefTextureProxyForParams dbg a params hasTexColorSpace willBeMipped scaleAdjust w =
     (let proxy = fOriginal a in
      case fContext a of
        None \<Rightarrow>
          Inr \<lparr>rProxy = None, rColorSpace = None, rScale = scaleAdjust, rWorld = w\<rparr>
      | Some ctx \<Rightarrow>
          (let cs = (if hasTexColorSpace then Some (fColorSpace a) else None) in
           SkASSERT dbg (fWidth a \<le> maxTextureSize ctx \<and> fHeight a \<le> maxTextureSize ctx)
             (let (wrap, w1) =
                    (if isRepeated params
                     then (IsACopyNeededForRepeatWrapMode ctx (heap w ! proxy)
                             (width (heap w ! proxy)) (height (heap w ! proxy))
                             (filterMode params),
                           logCall AnalyzeWrap w)
                     else (None, w))
              in case wrap of
                   Some (copyParams, sx, sy) \<Rightarrow>
                     (case refTextureProxyCopy dbg ctx a copyParams willBeMipped w1 of
                        Inl e \<Rightarrow> Inl e
                      | Inr (result, w2) \<Rightarrow>
                          Inr \<lparr>rProxy = result, rColorSpace = cs, rScale = (sx, sy),
                               rWorld = w2\<rparr>)
                 | None \<Rightarrow>
                     (case IsACopyNeededForMips ctx (heap w ! proxy) (filterMode params) of
                        None \<Rightarrow>
                          Inr \<lparr>rProxy = Some proxy, rColorSpace = cs, rScale = scaleAdjust,
                               rWorld = logCall AnalyzeMips w1\<rparr>
                      | Some copyParams \<Rightarrow>
                          (case refTextureProxyCopy dbg ctx a copyParams willBeMipped
                                  (logCall AnalyzeMips w1) of
                             Inl e \<Rightarrow> Inl e
                           | Inr (result, w2) \<Rightarrow>
                               Inr \<lparr>rProxy = (if result = None then Some (fOriginal a)
                                              else result),
                                    rColorSpace = cs, rScale = scaleAdjust,
                                    rWorld = w2\<rparr>)))))"

text \<open>
  What the analyzer decides for a request, read off the two calls above: no copy, a copy for
  the repeat wrap mode, or a copy for mip levels only.
\<close>

datatype CopyNeed = NoCopy | CopyForWrap CopyParams | CopyForMipsOnly CopyParams

definition copyNeed :: "GrContext \<Rightarrow> GrTextureProxy \<Rightarrow> GrSamplerState \<Rightarrow> CopyNeed" where
  "copyNeed ctx p params =
     (case (if isRepeated params
            then IsACopyNeededForRepeatWrapMode ctx p (width p) (height p) (filterMode params)
            else None) of
        Some (copyParams, sx, sy) \<Rightarrow> CopyForWrap copyParams
      | None \<Rightarrow>
          (case IsACopyNeededForMips ctx p (filterMode params) of
             None \<Rightarrow> NoCopy
           | Some copyParams \<Rightarrow> CopyForMipsOnly copyParams))"

section \<open>createFragmentProcessor\<close>

text \<open>
  What \<^verbatim>\<open>createFragmentProcessor\<close> uses and the sources do not contain is a parameter:
  the domain solver \<^verbatim>\<open>DetermineDomainMode\<close> (given the current content of its
  out-parameter \<^verbatim>\<open>domainRect\<close>, it answers the mode and the new content),
  \<^verbatim>\<open>SkMatrix::postScale\<close> on a matrix type \<open>'m\<close>, the default constructed sampler
  state, and the way the base class decides \<^verbatim>\<open>willBeMipped\<close> from the sampler state.
\<close>

record 'm Externals =
  DetermineDomainMode ::
    "SkRect \<Rightarrow> FilterConstraint \<Rightarrow> bool \<Rightarrow> GrTextureProxy \<Rightarrow> Filter option \<Rightarrow> SkRect
       \<Rightarrow> DomainMode \<times> SkRect"
  postScale :: "'m \<Rightarrow> SkScalar \<Rightarrow> SkScalar \<Rightarrow> 'm"
  defaultSamplerState :: GrSamplerState
  samplerWillBeMipped :: "GrSamplerState \<Rightarrow> bool"

text \<open>
  Modelled from the spec: \<^verbatim>\<open>refTextureProxyForParams\<close> belongs to the base class
  \<^verbatim>\<open>GrTextureProducer\<close>, which is missing from the sources. It is the selection
  \<open>select(proxy, samplerParams, wantMips)\<close> of the specification: it hands the request to
  \<open>onRefTextureProxyForParams\<close> with the mip requirement of the sampler state.
\<close>

definition refTextureProxyForParams ::
  "bool \<Rightarrow> 'm Externals \<Rightarrow> GrTextureAdjuster \<Rightarrow> GrSamplerState \<Rightarrow> bool \<Rightarrow> SkScalar \<times> SkScalar
     \<Rightarrow> World \<Rightarrow> error + RefResult" where
  "refTextureProxyForParams dbg ext a sampler hasTexColorSpace scaleAdjust w =
     onRefTextureProxyForParams dbg a sampler hasTexColorSpace (samplerWillBeMipped ext sampler)
       scaleAdjust w"

text \<open>
  The fragment processor is assembled outside the sources
  (\<^verbatim>\<open>CreateFragmentProcessorForDomainAndFilter\<close>, \<^verbatim>\<open>GrColorSpaceXformEffect::Make\<close>);
  the result records what was handed to the assembly.
\<close>

record 'm FragmentProcessor =
  fpProxy :: ptr
  fpTextureMatrix :: 'm
  fpDomainMode :: DomainMode
  fpDomain :: SkRect
  fpFilter :: "Filter option"
  fpColorSpace :: nat
  fpAlphaType :: nat
  fpDstColorSpace :: nat

definition domainOrdered :: "DomainMode \<Rightarrow> SkRect \<Rightarrow> bool" where
  "domainOrdered domainMode domain \<longleftrightarrow>
     domainMode = kNoDomain_DomainMode \<or>
     (fLeft domain \<le> fRight domain \<and> fTop domain \<le> fBottom domain)"

text \<open>
  \<open>domain0\<close> is the indeterminate initial content of the local \<^verbatim>\<open>domain\<close>.
\<close>

definition createFragmentProcessor ::
  "bool \<Rightarrow> 'm Externals \<Rightarrow> GrTextureAdjuster \<Rightarrow> 'm \<Rightarrow> SkRect \<Rightarrow> FilterConstraint \<Rightarrow> bool
     \<Rightarrow> Filter option \<Rightarrow> nat \<Rightarrow> SkRect \<Rightarrow> World
     \<Rightarrow> error + ('m FragmentProcessor option \<times> World)" where
  "createFragmentProcessor dbg ext a origTextureMatrix constraintRect filterConstraint
       coordsLimitedToConstraintRect filterOrNullForBicubic dstColorSpace domain0 w =
     (let samplerState =
            (case filterOrNullForBicubic of
               None \<Rightarrow> defaultSamplerState ext
             | Some f \<Rightarrow> (defaultSamplerState ext)\<lparr>filterMode := f\<rparr>)
      in case refTextureProxyForParams dbg ext a samplerState False (1, 1) w of
           Inl e \<Rightarrow> Inl e
         | Inr r \<Rightarrow>
             (case rProxy r of
                None \<Rightarrow> Inr (None, rWorld r)
              | Some proxy \<Rightarrow>
                  (let w1 = rWorld r;
                       textureMatrix =
                         (if proxy \<noteq> fOriginal a
                          then postScale ext origTextureMatrix (fst (rScale r)) (snd (rScale r))
                          else origTextureMatrix);
                       (domainMode1, domain1) =
                         DetermineDomainMode ext constraintRect filterConstraint
                           coordsLimitedToConstraintRect (heap w1 ! proxy)
                           filterOrNullForBicubic domain0;
                       w2 = logCall (SolveDomain filterOrNullForBicubic) w1;
                       assemble = (\<lambda>domainMode domain w'.
                         SkASSERT dbg (domainOrdered domainMode domain)
                           (Inr (Some \<lparr>fpProxy = proxy, fpTextureMatrix = textureMatrix,
                                       fpDomainMode = domainMode, fpDomain = domain,
                                       fpFilter = filterOrNullForBicubic,
                                       fpColorSpace = fColorSpace a,
                                       fpAlphaType = fAlphaType a,
                                       fpDstColorSpace = dstColorSpace\<rparr>,
                                 logCall (Assemble proxy) w')))
                   in if domainMode1 = kTightCopy_DomainMode
                      then
                        SkASSERT dbg (filterOrNullForBicubic = Some kMipMap)
                          (let (domainMode2, domain2) =
                                 DetermineDomainMode ext constraintRect filterConstraint
                                   coordsLimitedToConstraintRect (heap w1 ! proxy)
                                   (Some kBilerp) domain1;
                               w3 = logCall (SolveDomain (Some kBilerp)) w2
                           in SkASSERT dbg (domainMode2 \<noteq> kTightCopy_DomainMode)
                                (assemble domainMode2 domain2 w3))
                      else assemble domainMode1 domain1 w2)))"

section \<open>Observations on the state\<close>

text \<open>
  The number of GPU copies issued so far, the proxies registered under a key, and the
  invariant of the key table: no two entries under one key.
\<close>

fun isGpuCopy :: "call \<Rightarrow> bool" where
  "isGpuCopy (GpuCopy _ _ _) = True"
| "isGpuCopy _ = False"

definition gpuCopies :: "World \<Rightarrow> nat" where
  "gpuCopies w = length (filter isGpuCopy (calls w))"


definition oneEntryPerKey :: "World \<Rightarrow> bool" where
  "oneEntryPerKey w \<longleftrightarrow> distinct (map fst (fUniquelyKeyedProxies w))"

section \<open>Example inputs\<close>

text \<open>
  A 100 x 100 texture without mip levels on a device that tiles only powers of two, an
  adjuster on it, and externals in which a matrix is the list of the post-scalings applied
  to it. The example solver insets by half a texel for bilinear filtering and asks for a
  tight copy for MIP maps under a strict constraint, and for bicubic filtering when
  \<open>bicubicTight\<close> is set.
\<close>

definition exProxy :: GrTextureProxy where
  "exProxy = \<lparr>width = 100, height = 100, mipMapped = kNo, origin = kTopLeft_GrSurfaceOrigin\<rparr>"

definition exMipParams :: CopyParams where
  "exMipParams = \<lparr>cpWidth = 100, cpHeight = 100, cpMips = True\<rparr>"

definition exWrapParams :: CopyParams where
  "exWrapParams = \<lparr>cpWidth = 128, cpHeight = 128, cpMips = False\<rparr>"

definition exContext :: "bool \<Rightarrow> GrContext" where
  "exContext canCopy =
     \<lparr>maxTextureSize = 4096, mipMapSupport = True,
      IsACopyNeededForRepeatWrapMode =
        (\<lambda>p w h f. if w = 100 \<or> h = 100 then Some (exWrapParams, 100 / 128, 100 / 128)
                    else None),
      IsACopyNeededForMips =
        (\<lambda>p f. if f = kMipMap \<and> mipMapped p = kNo then Some exMipParams else None),
      gpuCanCopy = (\<lambda>p cp m. canCopy)\<rparr>"

definition exAdjuster :: "GrContext option \<Rightarrow> 32 word \<Rightarrow> GrTextureAdjuster" where
  "exAdjuster ctx uid =
     \<lparr>fContext = ctx, fOriginal = 0, fAlphaType = 0, fColorSpace = 0,
      fUniqueID = uid, fWidth = 100, fHeight = 100\<rparr>"

definition exWorld :: World where
  "exWorld = \<lparr>heap = [exProxy], fUniquelyKeyedProxies = [], recordingDDL = False,
              contextUniqueID = 1, calls = []\<rparr>"

definition exKey :: GrUniqueKey where
  "exKey = Key 7 100 100 exMipParams"

definition exCachedWorld :: World where
  "exCachedWorld =
     \<lparr>heap = [exProxy, exProxy], fUniquelyKeyedProxies = [(exKey, 1)], recordingDDL = False,
      contextUniqueID = 1, calls = []\<rparr>"

definition exRect :: SkRect where
  "exRect = \<lparr>fLeft = 0, fTop = 0, fRight = 100, fBottom = 100\<rparr>"

definition exSolver ::
  "bool \<Rightarrow> SkRect \<Rightarrow> FilterConstraint \<Rightarrow> bool \<Rightarrow> GrTextureProxy \<Rightarrow> Filter option \<Rightarrow> SkRect
     \<Rightarrow> DomainMode \<times> SkRect" where
  "exSolver bicubicTight cr fc cl p f d =
     (case f of
        Some kNearest \<Rightarrow> (kNoDomain_DomainMode, d)
      | Some kBilerp \<Rightarrow>
          (kDomain_DomainMode,
           \<lparr>fLeft = fLeft cr + 1 / 2, fTop = fTop cr + 1 / 2,
            fRight = fRight cr - 1 / 2, fBottom = fBottom cr - 1 / 2\<rparr>)
      | Some kMipMap \<Rightarrow>
          (if fc = kYes_FilterConstraint then (kTightCopy_DomainMode, d)
           else (kNoDomain_DomainMode, d))
      | None \<Rightarrow> (if bicubicTight then (kTightCopy_DomainMode, d) else (kDomain_DomainMode, cr)))"

definition exExternals :: "bool \<Rightarrow> (SkScalar \<times> SkScalar) list Externals" where
  "exExternals bicubicTight =
     \<lparr>DetermineDomainMode = exSolver bicubicTight,
      postScale = (\<lambda>m sx sy. m @ [(sx, sy)]),
      defaultSamplerState = \<lparr>isRepeated = False, filterMode = kNearest\<rparr>,
      samplerWillBeMipped = (\<lambda>s. filterMode s = kMipMap)\<rparr>"

lemmas ex_defs = exProxy_def exMipParams_def exWrapParams_def exContext_def exAdjuster_def
  exWorld_def exKey_def exCachedWorld_def exRect_def exSolver_def exExternals_def

lemmas model_defs = refTextureProxyCopy_def onRefTextureProxyForParams_def
  refTextureProxyForParams_def createFragmentProcessor_def makeCopyKey_def
  findOrCreateProxyByUniqueKey_def removeUniqueKeyFromProxy_def assignUniqueKeyToProxy_def
  CopyOnGpu_def didCacheCopy_def logCall_def SkASSERT_def copyNeed_def domainOrdered_def

section \<open>Facts about the key table\<close>

lemma lookupKey_append:
  "lookupKey (es @ [(k, p)]) k' =
     (case lookupKey es k' of Some q \<Rightarrow> Some q | None \<Rightarrow> if k = k' then Some p else None)"
  by (induction es) auto

lemma lookupKey_None_iff: "lookupKey es k = None \<longleftrightarrow> k \<notin> fst ` set es"
  by (induction es) (auto split: if_splits)

lemma under_key_hit:
  "distinct (map fst es) \<Longrightarrow> lookupKey es k = Some p \<Longrightarrow> filter (\<lambda>e. fst e = k) es = [(k, p)]"
proof (induction es)
  case Nil
  then show ?case by simp
next
  case (Cons e es)
  obtain k' q where e: "e = (k', q)" by (cases e)
  show ?case
  proof (cases "k' = k")
    case True
    with Cons.prems e have "k \<notin> fst ` set es" and "q = p" by auto
    then have "filter (\<lambda>e. fst e = k) es = []"
      by (auto simp: filter_empty_conv)
    with True e \<open>q = p\<close> show ?thesis by simp
  next
    case False
    with Cons e show ?thesis by simp
  qed
qed

lemma detach_removes_key:
  assumes "distinct (map fst es)" and "lookupKey es k = Some p"
  shows "filter (\<lambda>e. fst e = k) (filter (\<lambda>e. e \<noteq> (k, p)) es) = []"
proof -
  have "filter (\<lambda>e. fst e = k) (filter (\<lambda>e. e \<noteq> (k, p)) es) =
        filter (\<lambda>e. e \<noteq> (k, p)) (filter (\<lambda>e. fst e = k) es)"
    by (simp add: conj_commute)
  also have "\<dots> = []"
    using under_key_hit [OF assms] by simp
  finally show ?thesis .
qed


lemma no_entry_no_key:
  "filter (\<lambda>e. fst e = k) es = [] \<Longrightarrow> k \<notin> fst ` set es"
  by (auto simp: filter_empty_conv)

section \<open>Selection: onRefTextureProxyForParams\<close>

text \<open>
  C5. If the owning context has been abandoned (the context pointer is null), the selection
  returns null at once: the state, and with it the log of calls to the analyzer, the cache and
  the copy engine, is the one it was called in, and no out-parameter is written.
\<close>

theorem C5_abandoned_returns_null:
  "fContext a = None \<Longrightarrow>
   onRefTextureProxyForParams dbg a params hasTexColorSpace willBeMipped scaleAdjust w =
     Inr \<lparr>rProxy = None, rColorSpace = None, rScale = scaleAdjust, rWorld = w\<rparr>"
  by (simp add: onRefTextureProxyForParams_def)

theorem C5_abandoned_returns_null_witness:
  "fContext (exAdjuster None 7) = None \<and>
   onRefTextureProxyForParams True (exAdjuster None 7)
       \<lparr>isRepeated = True, filterMode = kMipMap\<rparr> True True (1, 1) exWorld =
     Inr \<lparr>rProxy = None, rColorSpace = None, rScale = (1, 1), rWorld = exWorld\<rparr>"
proof -
  have h: "fContext (exAdjuster None 7) = None"
    by (simp add: exAdjuster_def)
  show ?thesis
    using h C5_abandoned_returns_null [OF h] by simp
qed

text \<open>
  C7. For a valid input (a live context and, where assertions are checked, a texture
  within the maximal texture size) for
  which the analyzer decides that no copy is needed, the selection returns the original
  proxy itself (the same pointer); the heap and the key table are unchanged and the only
  calls made are those to the analyzer.
\<close>

theorem C7_no_copy_returns_original:
  assumes "fContext a = Some ctx"
    and "dbg \<longrightarrow> fWidth a \<le> maxTextureSize ctx \<and> fHeight a \<le> maxTextureSize ctx"
    and "copyNeed ctx (heap w ! fOriginal a) params = NoCopy"
  shows "\<exists>r. onRefTextureProxyForParams dbg a params hasTexColorSpace willBeMipped scaleAdjust w
               = Inr r \<and>
             rProxy r = Some (fOriginal a) \<and>
             heap (rWorld r) = heap w \<and>
             fUniquelyKeyedProxies (rWorld r) = fUniquelyKeyedProxies w \<and>
             (\<exists>cs. calls (rWorld r) = calls w @ cs \<and> set cs \<subseteq> {AnalyzeWrap, AnalyzeMips})"
  using assms
  by (auto simp: onRefTextureProxyForParams_def copyNeed_def SkASSERT_def logCall_def Let_def
      split: option.splits if_splits prod.splits)

theorem C7_no_copy_returns_original_witness:
  "copyNeed (exContext True) (heap exWorld ! fOriginal (exAdjuster (Some (exContext True)) 7))
      \<lparr>isRepeated = False, filterMode = kBilerp\<rparr> = NoCopy \<and>
   (\<exists>r. onRefTextureProxyForParams True (exAdjuster (Some (exContext True)) 7)
           \<lparr>isRepeated = False, filterMode = kBilerp\<rparr> False False (1, 1) exWorld = Inr r \<and>
        rProxy r = Some 0)"
proof -
  let ?a = "exAdjuster (Some (exContext True)) 7"
  let ?p = "\<lparr>isRepeated = False, filterMode = kBilerp\<rparr>"
  have h1: "fContext ?a = Some (exContext True)"
    by (simp add: exAdjuster_def)
  have h2: "True \<longrightarrow> fWidth ?a \<le> maxTextureSize (exContext True) \<and>
            fHeight ?a \<le> maxTextureSize (exContext True)"
    by (simp add: exAdjuster_def exContext_def)
  have h3: "copyNeed (exContext True) (heap exWorld ! fOriginal ?a) ?p = NoCopy"
    by (simp add: ex_defs copyNeed_def)
  have o: "fOriginal ?a = 0"
    by (simp add: exAdjuster_def)
  from C7_no_copy_returns_original [OF h1 h2 h3, of False False "(1, 1)"] h3 o
  show ?thesis by auto
qed

text \<open>
  C1. When the analyzer decides that a copy is needed and the gateway returns null: if the
  copy was requested for mip levels only, the selection returns the original proxy; if it
  was requested for the repeat wrap mode, the selection returns null. (The gateway is called
  in the state left by the analyzer calls.)
\<close>

theorem C1_copy_failure_policy:
  assumes "fContext a = Some ctx"
    and "dbg \<longrightarrow> fWidth a \<le> maxTextureSize ctx \<and> fHeight a \<le> maxTextureSize ctx"
  shows "(copyNeed ctx (heap w ! fOriginal a) params = CopyForMipsOnly copyParams \<and>
          refTextureProxyCopy dbg ctx a copyParams willBeMipped
            (logCall AnalyzeMips (if isRepeated params then logCall AnalyzeWrap w else w))
            = Inr (None, w') \<longrightarrow>
          (\<exists>r. onRefTextureProxyForParams dbg a params hasTexColorSpace willBeMipped
                  scaleAdjust w = Inr r \<and>
               rProxy r = Some (fOriginal a) \<and> rWorld r = w')) \<and>
         (copyNeed ctx (heap w ! fOriginal a) params = CopyForWrap copyParams \<and>
          refTextureProxyCopy dbg ctx a copyParams willBeMipped (logCall AnalyzeWrap w)
            = Inr (None, w') \<longrightarrow>
          (\<exists>r. onRefTextureProxyForParams dbg a params hasTexColorSpace willBeMipped
                  scaleAdjust w = Inr r \<and>
               rProxy r = None \<and> rWorld r = w'))"
  using assms
  by (auto simp: onRefTextureProxyForParams_def copyNeed_def SkASSERT_def Let_def
      split: option.splits if_splits prod.splits)

theorem C1_copy_failure_policy_witness:
  "(\<exists>r. onRefTextureProxyForParams True (exAdjuster (Some (exContext False)) 7)
           \<lparr>isRepeated = False, filterMode = kMipMap\<rparr> False True (1, 1) exWorld = Inr r \<and>
        rProxy r = Some 0) \<and>
   (\<exists>r. onRefTextureProxyForParams True (exAdjuster (Some (exContext False)) 7)
           \<lparr>isRepeated = True, filterMode = kBilerp\<rparr> False False (1, 1) exWorld = Inr r \<and>
        rProxy r = None)"
proof -
  let ?c = "exContext False"
  let ?a = "exAdjuster (Some ?c) 7"
  let ?m = "\<lparr>isRepeated = False, filterMode = kMipMap\<rparr>"
  let ?t = "\<lparr>isRepeated = True, filterMode = kBilerp\<rparr>"
  let ?wm = "exWorld\<lparr>calls := [AnalyzeMips, FindByKey (Key 7 100 100 exMipParams),
                                 GpuCopy 0 exMipParams True]\<rparr>"
  let ?wt = "exWorld\<lparr>calls := [AnalyzeWrap, FindByKey (Key 7 100 100 exWrapParams),
                                 GpuCopy 0 exWrapParams False]\<rparr>"
  have h1: "fContext ?a = Some ?c"
    by (simp add: exAdjuster_def)
  have h2: "True \<longrightarrow> fWidth ?a \<le> maxTextureSize ?c \<and> fHeight ?a \<le> maxTextureSize ?c"
    by (simp add: exAdjuster_def exContext_def)
  have o: "fOriginal ?a = 0"
    by (simp add: exAdjuster_def)
  have m: "copyNeed ?c (heap exWorld ! fOriginal ?a) ?m = CopyForMipsOnly exMipParams \<and>
           refTextureProxyCopy True ?c ?a exMipParams True
             (logCall AnalyzeMips (if isRepeated ?m then logCall AnalyzeWrap exWorld else exWorld))
           = Inr (None, ?wm)"
    by (simp add: ex_defs model_defs Let_def)
  have t: "copyNeed ?c (heap exWorld ! fOriginal ?a) ?t = CopyForWrap exWrapParams \<and>
           refTextureProxyCopy True ?c ?a exWrapParams False (logCall AnalyzeWrap exWorld)
           = Inr (None, ?wt)"
    by (simp add: ex_defs model_defs Let_def)
  from C1_copy_failure_policy [OF h1 h2, of exWorld ?m exMipParams True ?wm False "(1, 1)"]
    m o
  have a1: "\<exists>r. onRefTextureProxyForParams True ?a ?m False True (1, 1) exWorld = Inr r \<and>
                rProxy r = Some 0"
    by auto
  from C1_copy_failure_policy [OF h1 h2, of exWorld ?t exWrapParams False ?wt False "(1, 1)"]
    t
  have a2: "\<exists>r. onRefTextureProxyForParams True ?a ?t False False (1, 1) exWorld = Inr r \<and>
                rProxy r = None"
    by auto
  from a1 a2 show ?thesis by simp
qed

section \<open>Gateway with an invalid key\<close>



section \<open>Gateway: cache hits and idempotence\<close>

text \<open>
  C4 (amended). For a valid key, a cache hit whose entry already satisfies the mip
  requirement is returned at once: the only call is the cache query, no GPU copy is issued.
  Consequently, in a key table with at most one entry per key, if the first of two
  consecutive calls with the same arguments returns a proxy, the second call is a cache hit
  that returns the same proxy without a GPU copy, so that the two calls issue at most one GPU
  copy.
\<close>

theorem C4_hit_and_idempotence:
  assumes "isValid (makeCopyKey a copyParams)"
  shows "(lookupKey (fUniquelyKeyedProxies w) (makeCopyKey a copyParams) = Some p \<and>
          (willBeMipped \<longrightarrow> mipMapped (heap w ! p) = kYes) \<longrightarrow>
          refTextureProxyCopy dbg ctx a copyParams willBeMipped w =
            Inr (Some p, logCall (FindByKey (makeCopyKey a copyParams)) w)) \<and>
         (oneEntryPerKey w \<and>
          refTextureProxyCopy dbg ctx a copyParams willBeMipped w = Inr (Some q, w1) \<longrightarrow>
          refTextureProxyCopy dbg ctx a copyParams willBeMipped w1 =
            Inr (Some q, logCall (FindByKey (makeCopyKey a copyParams)) w1) \<and>
          gpuCopies (logCall (FindByKey (makeCopyKey a copyParams)) w1) \<le> gpuCopies w + 1)"
proof (rule conjI; rule impI)
  let ?K = "makeCopyKey a copyParams"
  let ?es = "fUniquelyKeyedProxies w"
  assume "lookupKey ?es ?K = Some p \<and> (willBeMipped \<longrightarrow> mipMapped (heap w ! p) = kYes)"
  with assms
  show "refTextureProxyCopy dbg ctx a copyParams willBeMipped w = Inr (Some p, logCall (FindByKey ?K) w)"
    by (auto simp: refTextureProxyCopy_def findOrCreateProxyByUniqueKey_def logCall_def Let_def)
next
  let ?K = "makeCopyKey a copyParams"
  let ?es = "fUniquelyKeyedProxies w"
  assume h: "oneEntryPerKey w \<and>
             refTextureProxyCopy dbg ctx a copyParams willBeMipped w = Inr (Some q, w1)"
  then have inv: "distinct (map fst ?es)"
    by (simp add: oneEntryPerKey_def)
  from h have run: "refTextureProxyCopy dbg ctx a copyParams willBeMipped w = Inr (Some q, w1)"
    by simp
  have hit: "lookupKey (fUniquelyKeyedProxies w1) ?K = Some q \<and>
             (willBeMipped \<longrightarrow> mipMapped (heap w1 ! q) = kYes) \<and>
             gpuCopies w1 \<le> gpuCopies w + 1"
  proof (cases "lookupKey ?es ?K")
    case None
    with run assms show ?thesis
      by (auto simp: refTextureProxyCopy_def findOrCreateProxyByUniqueKey_def CopyOnGpu_def
          removeUniqueKeyFromProxy_def assignUniqueKeyToProxy_def didCacheCopy_def logCall_def
          SkASSERT_def gpuCopies_def Let_def lookupKey_append
          split: if_splits option.splits prod.splits)
  next
    case (Some old)
    show ?thesis
    proof (cases "\<not> willBeMipped \<or> mipMapped (heap w ! old) = kYes")
      case True
      with run assms Some show ?thesis
        by (auto simp: refTextureProxyCopy_def findOrCreateProxyByUniqueKey_def logCall_def
            gpuCopies_def Let_def)
    next
      case False
      have gone: "lookupKey (filter (\<lambda>e. e \<noteq> (?K, old)) ?es) ?K = None"
        using no_entry_no_key [OF detach_removes_key [OF inv Some]]
        by (simp add: lookupKey_None_iff)
      from run assms Some False gone show ?thesis
        by (auto simp: refTextureProxyCopy_def findOrCreateProxyByUniqueKey_def CopyOnGpu_def
            removeUniqueKeyFromProxy_def assignUniqueKeyToProxy_def didCacheCopy_def logCall_def
            SkASSERT_def gpuCopies_def Let_def lookupKey_append
            split: if_splits option.splits prod.splits)
    qed
  qed
  with assms
  show "refTextureProxyCopy dbg ctx a copyParams willBeMipped w1 =
          Inr (Some q, logCall (FindByKey ?K) w1) \<and>
        gpuCopies (logCall (FindByKey ?K) w1) \<le> gpuCopies w + 1"
    by (auto simp: refTextureProxyCopy_def findOrCreateProxyByUniqueKey_def logCall_def
        gpuCopies_def Let_def)
qed

theorem C4_hit_and_idempotence_witness:
  "refTextureProxyCopy True (exContext True) (exAdjuster (Some (exContext True)) 7)
       exMipParams False exCachedWorld =
     Inr (Some 1, logCall (FindByKey exKey) exCachedWorld) \<and>
   refTextureProxyCopy True (exContext True) (exAdjuster (Some (exContext True)) 7)
       exMipParams True exWorld =
     Inr (Some 1,
          exWorld\<lparr>heap := [exProxy, exProxy\<lparr>mipMapped := kYes\<rparr>],
                   fUniquelyKeyedProxies := [(exKey, 1)],
                   calls := [FindByKey exKey, GpuCopy 0 exMipParams True, AssignKey exKey 1,
                             DidCacheCopy exKey]\<rparr>) \<and>
   refTextureProxyCopy True (exContext True) (exAdjuster (Some (exContext True)) 7)
       exMipParams True
       (exWorld\<lparr>heap := [exProxy, exProxy\<lparr>mipMapped := kYes\<rparr>],
                 fUniquelyKeyedProxies := [(exKey, 1)],
                 calls := [FindByKey exKey, GpuCopy 0 exMipParams True, AssignKey exKey 1,
                           DidCacheCopy exKey]\<rparr>) =
     Inr (Some 1,
          exWorld\<lparr>heap := [exProxy, exProxy\<lparr>mipMapped := kYes\<rparr>],
                   fUniquelyKeyedProxies := [(exKey, 1)],
                   calls := [FindByKey exKey, GpuCopy 0 exMipParams True, AssignKey exKey 1,
                             DidCacheCopy exKey, FindByKey exKey]\<rparr>)"
proof -
  let ?c = "exContext True"
  let ?a = "exAdjuster (Some ?c) 7"
  let ?w1 = "exWorld\<lparr>heap := [exProxy, exProxy\<lparr>mipMapped := kYes\<rparr>],
                     fUniquelyKeyedProxies := [(exKey, 1)],
                     calls := [FindByKey exKey, GpuCopy 0 exMipParams True, AssignKey exKey 1,
                               DidCacheCopy exKey]\<rparr>"
  have k: "makeCopyKey ?a exMipParams = exKey"
    by (simp add: makeCopyKey_def exAdjuster_def exKey_def)
  have v: "isValid (makeCopyKey ?a exMipParams)"
    by (simp add: k exKey_def)
  have hitA: "lookupKey (fUniquelyKeyedProxies exCachedWorld) (makeCopyKey ?a exMipParams) = Some 1 \<and>
              (False \<longrightarrow> mipMapped (heap exCachedWorld ! 1) = kYes)"
    by (simp add: k exCachedWorld_def)
  have first: "oneEntryPerKey exWorld \<and>
               refTextureProxyCopy True ?c ?a exMipParams True exWorld = Inr (Some 1, ?w1)"
    by (simp add: ex_defs model_defs oneEntryPerKey_def Let_def)
  from C4_hit_and_idempotence [OF v, of exCachedWorld 1 False True ?c] hitA k
  have a: "refTextureProxyCopy True ?c ?a exMipParams False exCachedWorld =
             Inr (Some 1, logCall (FindByKey exKey) exCachedWorld)"
    by simp
  from C4_hit_and_idempotence [OF v, of exWorld 1 True True ?c 1 ?w1] first k
  have b: "refTextureProxyCopy True ?c ?a exMipParams True ?w1 =
             Inr (Some 1, logCall (FindByKey exKey) ?w1)"
    by simp
  from a b first show ?thesis
    by (simp add: logCall_def exWorld_def)
qed

text \<open>
  The second half of C4 as stated fails when the copy engine fails: nothing is cached, the
  second call misses again and issues a second GPU copy.
\<close>

theorem C4_failed_copy_counterexample:
  "isValid (makeCopyKey (exAdjuster (Some (exContext False)) 7) exMipParams) \<and>
   refTextureProxyCopy True (exContext False) (exAdjuster (Some (exContext False)) 7)
       exMipParams True exWorld =
     Inr (None, exWorld\<lparr>calls := [FindByKey exKey, GpuCopy 0 exMipParams True]\<rparr>) \<and>
   refTextureProxyCopy True (exContext False) (exAdjuster (Some (exContext False)) 7)
       exMipParams True (exWorld\<lparr>calls := [FindByKey exKey, GpuCopy 0 exMipParams True]\<rparr>) =
     Inr (None, exWorld\<lparr>calls := [FindByKey exKey, GpuCopy 0 exMipParams True,
                                    FindByKey exKey, GpuCopy 0 exMipParams True]\<rparr>) \<and>
   gpuCopies (exWorld\<lparr>calls := [FindByKey exKey, GpuCopy 0 exMipParams True,
                                 FindByKey exKey, GpuCopy 0 exMipParams True]\<rparr>) =
     gpuCopies exWorld + 2"
  by (simp add: ex_defs model_defs gpuCopies_def Let_def)

section \<open>Gateway: mip upgrade\<close>








section \<open>createFragmentProcessor: selection and texture matrix\<close>

text \<open>
  C10. If the selection step returns null inside createFragmentProcessor, then
  createFragmentProcessor returns null in the state the selection left: the domain solver
  and the assembly of the fragment processor are not invoked (nothing is added to the log).
\<close>

theorem C10_null_selection_returns_null:
  assumes "refTextureProxyForParams dbg ext a
             (case filterOrNullForBicubic of
                None \<Rightarrow> defaultSamplerState ext
              | Some f \<Rightarrow> (defaultSamplerState ext)\<lparr>filterMode := f\<rparr>) False (1, 1) w = Inr r"
    and "rProxy r = None"
  shows "createFragmentProcessor dbg ext a origTextureMatrix constraintRect filterConstraint
           coordsLimitedToConstraintRect filterOrNullForBicubic dstColorSpace domain0 w =
         Inr (None, rWorld r)"
  using assms by (simp add: createFragmentProcessor_def)

theorem C10_null_selection_returns_null_witness:
  "refTextureProxyForParams True (exExternals False) (exAdjuster None 7)
       \<lparr>isRepeated = False, filterMode = kBilerp\<rparr> False (1, 1) exWorld =
     Inr \<lparr>rProxy = None, rColorSpace = None, rScale = (1, 1), rWorld = exWorld\<rparr> \<and>
   createFragmentProcessor True (exExternals False) (exAdjuster None 7) [] exRect
       kYes_FilterConstraint False (Some kBilerp) 0 exRect exWorld =
     Inr (None, exWorld)"
proof -
  let ?r = "\<lparr>rProxy = None, rColorSpace = None, rScale = (1, 1), rWorld = exWorld\<rparr>"
  have h1: "refTextureProxyForParams True (exExternals False) (exAdjuster None 7)
              (case Some kBilerp of
                 None \<Rightarrow> defaultSamplerState (exExternals False)
               | Some f \<Rightarrow> (defaultSamplerState (exExternals False))\<lparr>filterMode := f\<rparr>)
              False (1, 1) exWorld = Inr ?r"
    by (simp add: refTextureProxyForParams_def onRefTextureProxyForParams_def exAdjuster_def)
  have h2: "rProxy ?r = None"
    by simp
  have s: "(case Some kBilerp of
              None \<Rightarrow> defaultSamplerState (exExternals False)
            | Some f \<Rightarrow> (defaultSamplerState (exExternals False))\<lparr>filterMode := f\<rparr>) =
           \<lparr>isRepeated = False, filterMode = kBilerp\<rparr>"
    by (simp add: exExternals_def)
  from C10_null_selection_returns_null [OF h1 h2, of "[]" exRect kYes_FilterConstraint False 0 exRect]
    h1 s
  show ?thesis by simp
qed

text \<open>
  C8. Whenever createFragmentProcessor hands a fragment processor to the assembly, the
  texture matrix it hands over is the original matrix post-scaled by the scale adjustment
  left by the selection exactly when the selected proxy is not the original proxy, and the
  original matrix itself when the original proxy was selected.
\<close>

theorem C8_matrix_scaled_iff_copy:
  assumes "createFragmentProcessor dbg ext a origTextureMatrix constraintRect filterConstraint
             coordsLimitedToConstraintRect filterOrNullForBicubic dstColorSpace domain0 w =
           Inr (Some fp, w')"
  shows "\<exists>r. refTextureProxyForParams dbg ext a
               (case filterOrNullForBicubic of
                  None \<Rightarrow> defaultSamplerState ext
                | Some f \<Rightarrow> (defaultSamplerState ext)\<lparr>filterMode := f\<rparr>) False (1, 1) w
             = Inr r \<and>
             rProxy r = Some (fpProxy fp) \<and>
             fpTextureMatrix fp =
               (if fpProxy fp \<noteq> fOriginal a
                then postScale ext origTextureMatrix (fst (rScale r)) (snd (rScale r))
                else origTextureMatrix)"
  using assms
  by (auto simp: createFragmentProcessor_def SkASSERT_def Let_def
      split: sum.splits option.splits prod.splits if_splits)

theorem C8_matrix_scaled_iff_copy_witness:
  "(\<exists>fp w'. createFragmentProcessor True (exExternals False)
               (exAdjuster (Some (exContext True)) 7) [] exRect kYes_FilterConstraint False
               (Some kMipMap) 0 exRect exWorld = Inr (Some fp, w') \<and>
            fpProxy fp = 1 \<and> fpTextureMatrix fp = [(1, 1)]) \<and>
   (\<exists>fp w'. createFragmentProcessor True (exExternals False)
               (exAdjuster (Some (exContext True)) 7) [] exRect kYes_FilterConstraint False
               (Some kBilerp) 0 exRect exWorld = Inr (Some fp, w') \<and>
            fpProxy fp = 0 \<and> fpTextureMatrix fp = [])"
proof -
  let ?e = "exExternals False"
  let ?a = "exAdjuster (Some (exContext True)) 7"
  obtain fp1 w1 where c1:
    "createFragmentProcessor True ?e ?a [] exRect kYes_FilterConstraint False
       (Some kMipMap) 0 exRect exWorld = Inr (Some fp1, w1)" and p1: "fpProxy fp1 = 1"
    by (simp add: ex_defs model_defs Let_def)
  obtain fp2 w2 where c2:
    "createFragmentProcessor True ?e ?a [] exRect kYes_FilterConstraint False
       (Some kBilerp) 0 exRect exWorld = Inr (Some fp2, w2)" and p2: "fpProxy fp2 = 0"
    by (simp add: ex_defs model_defs Let_def)
  have o: "fOriginal ?a = 0" and ps: "postScale ?e = (\<lambda>m sx sy. m @ [(sx, sy)])"
    by (simp_all add: exAdjuster_def exExternals_def)
  have r1: "refTextureProxyForParams True ?e ?a
              (case Some kMipMap of None \<Rightarrow> defaultSamplerState ?e
               | Some f \<Rightarrow> (defaultSamplerState ?e)\<lparr>filterMode := f\<rparr>) False (1, 1) exWorld
            = Inr r \<Longrightarrow> rScale r = (1, 1)" for r
    by (auto simp: ex_defs model_defs Let_def)
  from C8_matrix_scaled_iff_copy [OF c1] p1 o ps r1
  have m1: "fpTextureMatrix fp1 = [(1, 1)]"
    by auto
  from C8_matrix_scaled_iff_copy [OF c2] p2 o
  have m2: "fpTextureMatrix fp2 = []"
    by auto
  from c1 p1 m1 c2 p2 m2 show ?thesis by blast
qed

end
